theory Spec2Isabelle
  imports Main
begin

section \<open>The Tally connector: declarative field extraction\<close>

text \<open>
  A shallow embedding of \<^verbatim>\<open>tendril/utils/connectors/tally/__init__.py\<close> and
  \<^verbatim>\<open>general.py\<close>. Exceptions are values: every function that can raise returns
  \<open>exc + 'a\<close>, with \<open>Inl\<close> the exception. Text is ASCII text, one \<open>char\<close> per
  character.
\<close>

subsection \<open>Exceptions, documents and values\<close>

text \<open>
  The exception classes the source raises or names in an \<^verbatim>\<open>except\<close> clause, and
  those of the Python operations it uses. A constructor stands for an exception of
  exactly that class; \<open>PyException\<close> is an instance of \<^verbatim>\<open>Exception\<close> itself.
  Among the classes that the \<^verbatim>\<open>except\<close> clauses name, none is a subclass of
  another.
\<close>

datatype exc =
    TypeError | AttributeError | IndexError | KeyError | NameError
  | InvalidOperation | ValueError | PyException | NotImplementedError
  | TallyNotAvailable

text \<open>
  A parsed document (BeautifulSoup): a tag has a name, an attribute dictionary and
  ordered contents, which are tags and strings.
\<close>

datatype node =
    Tag string "(string \<times> string) list" "node list"
  | NavigableString string

text \<open>
  What the source hands to a constructor as \<^verbatim>\<open>soup\<close> or as the text to coerce: a
  document node, or a plain string such as \<^verbatim>\<open>c.text\<close>.
\<close>

datatype pyarg = Node node | Text string

type_synonym ref = nat

text \<open>
  Python values an extracted attribute can hold. \<open>VDecimal c e\<close> is the finite
  Decimal \<open>c * 10^e\<close>. \<open>VObj soup ctx d\<close> is a TallyElement instance: its
  \<^verbatim>\<open>_soup\<close>, its \<^verbatim>\<open>_ctx\<close> (a reference, or None) and the attributes that
  \<^verbatim>\<open>setattr\<close> has put on it, in the order of their first assignment.
\<close>

datatype val =
    VNone
  | VStr string
  | VInt int
  | VBool bool
  | VDecimal int int
  | VList "val list"
  | VObj pyarg "ref option" "(string \<times> val) list"

subsection \<open>The document operations the extractor uses\<close>

fun get_text :: "node \<Rightarrow> string" where
  "get_text (NavigableString s) = s"
| "get_text (Tag nm ats cs) = concat (map get_text cs)"

fun descendants :: "node \<Rightarrow> node list" where
  "descendants (NavigableString s) = []"
| "descendants (Tag nm ats cs) = concat (map (\<lambda>c. c # descendants c) cs)"

fun is_tag_named :: "string \<Rightarrow> node \<Rightarrow> bool" where
  "is_tag_named name (Tag nm ats cs) = (nm = name)"
| "is_tag_named name (NavigableString s) = False"

text \<open>
  \<^verbatim>\<open>soup.findChildren(name, recursive=...)\<close>: the matching tags among the children,
  or among all descendants in document order. A string has no such method.
\<close>

fun findChildren :: "pyarg \<Rightarrow> string \<Rightarrow> bool \<Rightarrow> exc + node list" where
  "findChildren (Node (Tag nm ats cs)) name recursive =
     Inr (filter (is_tag_named name)
            (if recursive then descendants (Tag nm ats cs) else cs))"
| "findChildren (Node (NavigableString s)) name recursive = Inl AttributeError"
| "findChildren (Text s) name recursive = Inl AttributeError"

text \<open>\<^verbatim>\<open>soup.attrs[key]\<close>.\<close>

fun attrs_getitem :: "pyarg \<Rightarrow> string \<Rightarrow> exc + string" where
  "attrs_getitem (Node (Tag nm ats cs)) key =
     (case map_of ats key of None \<Rightarrow> Inl KeyError | Some a \<Rightarrow> Inr a)"
| "attrs_getitem (Node (NavigableString s)) key = Inl AttributeError"
| "attrs_getitem (Text s) key = Inl AttributeError"

definition is_space :: "char \<Rightarrow> bool" where
  "is_space c =
     (c \<in> set [CHR '' '', CHR 0x09, CHR 0x0A, CHR 0x0B, CHR 0x0C, CHR 0x0D,
               CHR 0x1C, CHR 0x1D, CHR 0x1E, CHR 0x1F])"

definition strip :: "string \<Rightarrow> string" where
  "strip s = rev (dropWhile is_space (rev (dropWhile is_space s)))"

fun join :: "string \<Rightarrow> string list \<Rightarrow> string" where
  "join sep [] = []"
| "join sep [x] = x"
| "join sep (x # y # ys) = x @ sep @ join sep (y # ys)"

fun as_strs :: "val list \<Rightarrow> string list option" where
  "as_strs [] = Some []"
| "as_strs (VStr s # vs) = (case as_strs vs of None \<Rightarrow> None | Some ss \<Rightarrow> Some (s # ss))"
| "as_strs (v # vs) = None"

text \<open>\<^verbatim>\<open>sep.join(items)\<close>: a TypeError unless every item is a string.\<close>

definition str_join :: "string \<Rightarrow> val list \<Rightarrow> exc + val" where
  "str_join sep items =
     (case as_strs items of None \<Rightarrow> Inl TypeError | Some ss \<Rightarrow> Inr (VStr (join sep ss)))"

text \<open>
  A list comprehension \<^verbatim>\<open>[f(x) for x in xs]\<close>: evaluated left to right, the first
  exception ends it.
\<close>

fun comprehension :: "('a \<Rightarrow> exc + 'b) \<Rightarrow> 'a list \<Rightarrow> exc + 'b list" where
  "comprehension f [] = Inr []"
| "comprehension f (x # xs) =
     (case f x of
        Inl e \<Rightarrow> Inl e
      | Inr y \<Rightarrow> (case comprehension f xs of Inl e \<Rightarrow> Inl e | Inr ys \<Rightarrow> Inr (y # ys)))"

subsection \<open>Field specification tables\<close>

text \<open>
  The \<^verbatim>\<open>valueType\<close> of a rule, \<^verbatim>\<open>v[1]\<close>, is a Python callable. The extractor
  compares it with \<^verbatim>\<open>str\<close> and \<^verbatim>\<open>Decimal\<close>, asks whether it is a subclass of
  TallyElement, and calls it. \<open>Callable b f\<close> is a callable of one argument that is
  not such a subclass: \<open>b\<close> says whether it is \<^verbatim>\<open>str\<close>, \<^verbatim>\<open>Decimal\<close> or
  something else, \<open>f\<close> is what calling it does. \<open>ElementClass g\<close> is a subclass of
  TallyElement; \<open>g soup ctx\<close> is what \<^verbatim>\<open>cls(soup, ctx)\<close> does.
\<close>

datatype builtin = IsStr | IsDecimal | IsOther

datatype vtype =
    Callable builtin "pyarg \<Rightarrow> exc + val"
  | ElementClass "pyarg \<Rightarrow> ref option \<Rightarrow> exc + val"

text \<open>\<^verbatim>\<open>v[1] == str\<close> and \<^verbatim>\<open>v[1] == Decimal\<close>.\<close>

fun is_str :: "vtype \<Rightarrow> bool" where
  "is_str (Callable b f) = (b = IsStr)"
| "is_str (ElementClass g) = False"

fun is_Decimal :: "vtype \<Rightarrow> bool" where
  "is_Decimal (Callable b f) = (b = IsDecimal)"
| "is_Decimal (ElementClass g) = False"

text \<open>\<^verbatim>\<open>inspect.isclass(v[1]) and issubclass(v[1], TallyElement)\<close>.\<close>

fun is_element_class :: "vtype \<Rightarrow> bool" where
  "is_element_class (Callable b f) = False"
| "is_element_class (ElementClass g) = True"

text \<open>
  \<^verbatim>\<open>v[1](x)\<close> and \<^verbatim>\<open>v[1](x, ctx)\<close>. A TallyElement subclass called with one
  argument gets the default \<^verbatim>\<open>ctx=None\<close>; the source calls a callable that is not
  such a subclass with one argument only.
\<close>

fun call1 :: "vtype \<Rightarrow> pyarg \<Rightarrow> exc + val" where
  "call1 (Callable b f) x = f x"
| "call1 (ElementClass g) x = g x None"

fun call2 :: "vtype \<Rightarrow> pyarg \<Rightarrow> ref option \<Rightarrow> exc + val" where
  "call2 (ElementClass g) x ctx = g x ctx"
| "call2 (Callable b f) x ctx = Inl TypeError"

text \<open>
  A rule \<^verbatim>\<open>(sourceName, valueType, required)\<close>, and a class's five tables, each
  in the order in which \<^verbatim>\<open>iteritems\<close> yields its items.
\<close>

type_synonym rule = "string \<times> vtype \<times> bool"
type_synonym list_rule = "string \<times> vtype"

record tally_class =
  elements :: "(string \<times> rule) list"
  descendent_elements :: "(string \<times> rule) list"
  attrs :: "(string \<times> rule) list"
  lists :: "(string \<times> list_rule) list"
  multilines :: "(string \<times> rule) list"

subsection \<open>TallyElement\<close>

text \<open>\<^verbatim>\<open>setattr(self, k, val)\<close> on the instance's attribute dictionary.\<close>

fun setattr :: "string \<Rightarrow> val \<Rightarrow> (string \<times> val) list \<Rightarrow> (string \<times> val) list" where
  "setattr k v [] = [(k, v)]"
| "setattr k v ((k', v') # d) =
     (if k' = k then (k, v) # d else (k', v') # setattr k v d)"

text \<open>
  \<^verbatim>\<open>for k, v in iteritems(table): ...; setattr(self, k, val)\<close>, where the loop
  body computes \<^verbatim>\<open>val\<close> from \<^verbatim>\<open>v\<close> or raises.
\<close>

fun for_items ::
  "('v \<Rightarrow> exc + val) \<Rightarrow> (string \<times> 'v) list \<Rightarrow> (string \<times> val) list \<Rightarrow> exc + (string \<times> val) list"
where
  "for_items body [] d = Inr d"
| "for_items body ((k, v) # table) d =
     (case body v of
        Inl e \<Rightarrow> Inl e
      | Inr val \<Rightarrow> for_items body table (setattr k val d))"

text \<open>The \<^verbatim>\<open>try\<close> block of \<^verbatim>\<open>_process_elements\<close>, lines 88 to 101.\<close>

definition elements_try :: "pyarg \<Rightarrow> ref option \<Rightarrow> rule \<Rightarrow> exc + val" where
  "elements_try soup ctx v =
     (case v of (v0, v1, v2) \<Rightarrow>
      (case findChildren soup v0 False of
         Inl e \<Rightarrow> Inl e
       | Inr candidates \<Rightarrow>
           if is_str v1 then
             (case comprehension (\<lambda>c. call1 v1 (Text (get_text c))) candidates of
                Inl e \<Rightarrow> Inl e
              | Inr items \<Rightarrow> str_join '':'' items)
           else if length candidates > 1 then Inl NameError
           else if is_element_class v1 then
             (case candidates of
                [] \<Rightarrow> Inl IndexError
              | c # cs \<Rightarrow> call2 v1 (Text (get_text c)) ctx)
           else
             (case candidates of
                [] \<Rightarrow> Inl IndexError
              | c # cs \<Rightarrow>
                  if is_Decimal v1 \<and> strip (get_text c) = [] then call1 v1 (Text ''0'')
                  else call1 v1 (Text (get_text c)))))"

text \<open>
  The \<^verbatim>\<open>except\<close> clauses of \<^verbatim>\<open>_process_elements\<close>, lines 102 to 108: the
  five listed classes give None on an optional field and are raised again on a
  required one; a ValueError is raised again; anything else is not caught.
\<close>

definition elements_except :: "rule \<Rightarrow> exc \<Rightarrow> exc + val" where
  "elements_except v e =
     (case v of (v0, v1, v2) \<Rightarrow>
      if e \<in> {TypeError, AttributeError, IndexError, NameError, InvalidOperation} then
        (if \<not> v2 then Inr VNone else Inl e)
      else if e = ValueError then Inl e
      else Inl e)"

definition elements_field :: "pyarg \<Rightarrow> ref option \<Rightarrow> rule \<Rightarrow> exc + val" where
  "elements_field soup ctx v =
     (case elements_try soup ctx v of
        Inl e \<Rightarrow> elements_except v e
      | Inr val \<Rightarrow> Inr val)"

definition process_elements ::
  "(string \<times> rule) list \<Rightarrow> pyarg \<Rightarrow> ref option \<Rightarrow> (string \<times> val) list \<Rightarrow> exc + (string \<times> val) list"
where
  "process_elements table soup ctx d = for_items (elements_field soup ctx) table d"

text \<open>The \<^verbatim>\<open>try\<close> block of \<^verbatim>\<open>_process_descendent_elements\<close>, lines 114 to 125.\<close>

definition descendent_elements_try :: "pyarg \<Rightarrow> ref option \<Rightarrow> rule \<Rightarrow> exc + val" where
  "descendent_elements_try soup ctx v =
     (case v of (v0, v1, v2) \<Rightarrow>
      (case findChildren soup v0 True of
         Inl e \<Rightarrow> Inl e
       | Inr candidates \<Rightarrow>
           if is_str v1 then
             (case comprehension (\<lambda>c. call1 v1 (Text (get_text c))) candidates of
                Inl e \<Rightarrow> Inl e
              | Inr items \<Rightarrow> str_join '':'' items)
           else if length candidates > 1 then Inl NameError
           else if is_element_class v1 then
             (case candidates of
                [] \<Rightarrow> Inl IndexError
              | c # cs \<Rightarrow> call2 v1 (Text (get_text c)) ctx)
           else
             (case candidates of
                [] \<Rightarrow> Inl IndexError
              | c # cs \<Rightarrow> call1 v1 (Text (get_text c)))))"

text \<open>Its \<^verbatim>\<open>except\<close> clauses, lines 126 to 132.\<close>

definition descendent_elements_except :: "rule \<Rightarrow> exc \<Rightarrow> exc + val" where
  "descendent_elements_except v e =
     (case v of (v0, v1, v2) \<Rightarrow>
      if e \<in> {TypeError, AttributeError, IndexError, NameError, InvalidOperation} then
        (if \<not> v2 then Inr VNone else Inl e)
      else if e = ValueError then Inl e
      else Inl e)"

definition descendent_elements_field :: "pyarg \<Rightarrow> ref option \<Rightarrow> rule \<Rightarrow> exc + val" where
  "descendent_elements_field soup ctx v =
     (case descendent_elements_try soup ctx v of
        Inl e \<Rightarrow> descendent_elements_except v e
      | Inr val \<Rightarrow> Inr val)"

definition process_descendent_elements ::
  "(string \<times> rule) list \<Rightarrow> pyarg \<Rightarrow> ref option \<Rightarrow> (string \<times> val) list \<Rightarrow> exc + (string \<times> val) list"
where
  "process_descendent_elements table soup ctx d =
     for_items (descendent_elements_field soup ctx) table d"

text \<open>\<^verbatim>\<open>_process_attrs\<close>: line 138, and the bare \<^verbatim>\<open>except\<close> of lines 139 to 143.\<close>

definition attrs_try :: "pyarg \<Rightarrow> rule \<Rightarrow> exc + val" where
  "attrs_try soup v =
     (case v of (v0, v1, v2) \<Rightarrow>
      (case attrs_getitem soup v0 of
         Inl e \<Rightarrow> Inl e
       | Inr a \<Rightarrow> call1 v1 (Text a)))"

definition attrs_except :: "rule \<Rightarrow> exc \<Rightarrow> exc + val" where
  "attrs_except v e =
     (case v of (v0, v1, v2) \<Rightarrow> if \<not> v2 then Inr VNone else Inl e)"

definition attrs_field :: "pyarg \<Rightarrow> rule \<Rightarrow> exc + val" where
  "attrs_field soup v =
     (case attrs_try soup v of
        Inl e \<Rightarrow> attrs_except v e
      | Inr val \<Rightarrow> Inr val)"

definition process_attrs ::
  "(string \<times> rule) list \<Rightarrow> pyarg \<Rightarrow> (string \<times> val) list \<Rightarrow> exc + (string \<times> val) list"
where
  "process_attrs table soup d = for_items (attrs_field soup) table d"

text \<open>\<^verbatim>\<open>_process_lists\<close>, lines 148 to 152; there is no \<^verbatim>\<open>try\<close>.\<close>

definition lists_field :: "pyarg \<Rightarrow> ref option \<Rightarrow> list_rule \<Rightarrow> exc + val" where
  "lists_field soup ctx v =
     (case v of (v0, v1) \<Rightarrow>
      (case findChildren soup (v0 @ ''.list'') True of
         Inl e \<Rightarrow> Inl e
       | Inr candidates \<Rightarrow>
           if is_element_class v1 then
             (case comprehension (\<lambda>c. call2 v1 (Node c) ctx) candidates of
                Inl e \<Rightarrow> Inl e
              | Inr items \<Rightarrow> Inr (VList items))
           else
             (case comprehension (\<lambda>c. call1 v1 (Node c)) candidates of
                Inl e \<Rightarrow> Inl e
              | Inr items \<Rightarrow> Inr (VList items))))"

definition process_lists ::
  "(string \<times> list_rule) list \<Rightarrow> pyarg \<Rightarrow> ref option \<Rightarrow> (string \<times> val) list \<Rightarrow> exc + (string \<times> val) list"
where
  "process_lists table soup ctx d = for_items (lists_field soup ctx) table d"

text \<open>The \<^verbatim>\<open>try\<close> block of \<^verbatim>\<open>_process_multilines\<close>, lines 158 to 171.\<close>

definition multilines_try :: "pyarg \<Rightarrow> rule \<Rightarrow> exc + val" where
  "multilines_try soup v =
     (case v of (v0, v1, v2) \<Rightarrow>
      (case findChildren soup (v0 @ ''.list'') True of
         Inl e \<Rightarrow> Inl e
       | Inr candidates \<Rightarrow>
           if length candidates = 0 then Inr (VStr [])
           else if length candidates > 1 then Inl PyException
           else
             (case findChildren (Node (candidates ! 0)) v0 True of
                Inl e \<Rightarrow> Inl e
              | Inr ls \<Rightarrow>
                  (case comprehension (\<lambda>l. call1 v1 (Text (strip (get_text l)))) ls of
                     Inl e \<Rightarrow> Inl e
                   | Inr lines \<Rightarrow>
                       if length lines = 1 then Inr (lines ! 0)
                       else if length lines = 0 then Inr (VStr [])
                       else str_join [CHR 0x0A] lines))))"

text \<open>Its \<^verbatim>\<open>except\<close> clauses, lines 172 to 178.\<close>

definition multilines_except :: "rule \<Rightarrow> exc \<Rightarrow> exc + val" where
  "multilines_except v e =
     (case v of (v0, v1, v2) \<Rightarrow>
      if e \<in> {TypeError, AttributeError, IndexError} then
        (if \<not> v2 then Inr VNone else Inl e)
      else if e = ValueError then Inl e
      else Inl e)"

definition multilines_field :: "pyarg \<Rightarrow> rule \<Rightarrow> exc + val" where
  "multilines_field soup v =
     (case multilines_try soup v of
        Inl e \<Rightarrow> multilines_except v e
      | Inr val \<Rightarrow> Inr val)"

definition process_multilines ::
  "(string \<times> rule) list \<Rightarrow> pyarg \<Rightarrow> (string \<times> val) list \<Rightarrow> exc + (string \<times> val) list"
where
  "process_multilines table soup d = for_items (multilines_field soup) table d"

text \<open>\<^verbatim>\<open>_populate\<close>: the five passes in the source's order.\<close>

definition populate ::
  "tally_class \<Rightarrow> pyarg \<Rightarrow> ref option \<Rightarrow> (string \<times> val) list \<Rightarrow> exc + (string \<times> val) list"
where
  "populate cls soup ctx d0 =
     (case process_attrs (attrs cls) soup d0 of
        Inl e \<Rightarrow> Inl e
      | Inr d1 \<Rightarrow>
     (case process_elements (elements cls) soup ctx d1 of
        Inl e \<Rightarrow> Inl e
      | Inr d2 \<Rightarrow>
     (case process_lists (lists cls) soup ctx d2 of
        Inl e \<Rightarrow> Inl e
      | Inr d3 \<Rightarrow>
     (case process_multilines (multilines cls) soup d3 of
        Inl e \<Rightarrow> Inl e
      | Inr d4 \<Rightarrow> process_descendent_elements (descendent_elements cls) soup ctx d4))))"

text \<open>
  \<^verbatim>\<open>TallyElement.__init__\<close>: the constructor of a class with the tables \<open>cls\<close>.
  As a \<open>vtype\<close>, the class is \<open>ElementClass (TallyElement cls)\<close>.
\<close>

definition TallyElement :: "tally_class \<Rightarrow> pyarg \<Rightarrow> ref option \<Rightarrow> exc + val" where
  "TallyElement cls soup ctx =
     (case populate cls soup ctx [] of
        Inl e \<Rightarrow> Inl e
      | Inr d \<Rightarrow> Inr (VObj soup ctx d))"

subsection \<open>The built-in value types\<close>

text \<open>
  \<^verbatim>\<open>str\<close>: the identity on text. On a tag it gives the tag's markup; the renderer
  belongs to BeautifulSoup and is a parameter.
\<close>

definition py_str :: "(node \<Rightarrow> string) \<Rightarrow> pyarg \<Rightarrow> exc + val" where
  "py_str render x = (case x of Text s \<Rightarrow> Inr (VStr s) | Node n \<Rightarrow> Inr (VStr (render n)))"

definition StrType :: "(node \<Rightarrow> string) \<Rightarrow> vtype" where
  "StrType render = Callable IsStr (py_str render)"

definition is_digit :: "char \<Rightarrow> bool" where
  "is_digit c = (c \<in> set ''0123456789'')"

definition digit_value :: "char \<Rightarrow> nat" where
  "digit_value c =
     (case map_of (zip ''0123456789'' [0, 1, 2, 3, 4, 5, 6, 7, 8, 9]) c of
        None \<Rightarrow> 0 | Some d \<Rightarrow> d)"

definition digits_value :: "string \<Rightarrow> nat" where
  "digits_value ds = foldl (\<lambda>a c. 10 * a + digit_value c) 0 ds"

text \<open>
  \<^verbatim>\<open>int\<close> on text, with the syntax of Python 2: surrounding whitespace, an
  optional sign, decimal digits; anything else is a ValueError. A tag is not a number.
\<close>

definition py_int :: "pyarg \<Rightarrow> exc + val" where
  "py_int x =
     (case x of
        Node n \<Rightarrow> Inl TypeError
      | Text s \<Rightarrow>
          (case strip s of
             [] \<Rightarrow> Inl ValueError
           | c # ds \<Rightarrow>
               if c = CHR ''-'' \<and> ds \<noteq> [] \<and> list_all is_digit ds
                 then Inr (VInt (- int (digits_value ds)))
               else if c = CHR ''+'' \<and> ds \<noteq> [] \<and> list_all is_digit ds
                 then Inr (VInt (int (digits_value ds)))
               else if list_all is_digit (c # ds)
                 then Inr (VInt (int (digits_value (c # ds))))
               else Inl ValueError))"

definition IntType :: vtype where
  "IntType = Callable IsOther py_int"

text \<open>
  \<^verbatim>\<open>Decimal\<close> on text: the text is stripped; empty text is an InvalidOperation
  and a run of digits is that integer. The rest of the numeric-string syntax of the
  decimal module (sign, fraction, exponent, infinities, NaN) is the parameter
  \<open>literal\<close>. A tag cannot be converted.
\<close>

definition py_Decimal :: "(string \<Rightarrow> exc + val) \<Rightarrow> pyarg \<Rightarrow> exc + val" where
  "py_Decimal literal x =
     (case x of
        Node n \<Rightarrow> Inl TypeError
      | Text s \<Rightarrow>
          if strip s = [] then Inl InvalidOperation
          else if list_all is_digit (strip s) then Inr (VDecimal (int (digits_value (strip s))) 0)
          else literal (strip s))"

definition DecimalType :: "(string \<Rightarrow> exc + val) \<Rightarrow> vtype" where
  "DecimalType literal = Callable IsDecimal (py_Decimal literal)"

subsection \<open>TallyUnit\<close>

text \<open>
  The class of \<^verbatim>\<open>general.py\<close>. \<^verbatim>\<open>yesorno\<close> is imported from the package's
  \<^verbatim>\<open>utils\<close> module and \<^verbatim>\<open>float\<close> gives a floating-point number; both are
  parameters. The rules stand in the order of the source text.
\<close>

definition TallyUnit_class ::
  "(node \<Rightarrow> string) \<Rightarrow> (pyarg \<Rightarrow> exc + val) \<Rightarrow> (pyarg \<Rightarrow> exc + val) \<Rightarrow> tally_class"
where
  "TallyUnit_class render yesorno float =
     \<lparr> elements =
         [(''name'', (''name'', StrType render, True)),
          (''originalname'', (''originalname'', StrType render, False)),
          (''decimalplaces'', (''decimalplaces'', IntType, True)),
          (''issimpleunit'', (''issimpleunit'', Callable IsOther yesorno, True)),
          (''additionalunits'', (''additionalunits'', StrType render, False)),
          (''conversion'', (''conversion'', Callable IsOther float, False))],
       descendent_elements = [],
       attrs = [],
       lists = [],
       multilines = [] \<rparr>"

definition TallyUnit ::
  "(node \<Rightarrow> string) \<Rightarrow> (pyarg \<Rightarrow> exc + val) \<Rightarrow> (pyarg \<Rightarrow> exc + val) \<Rightarrow> vtype"
where
  "TallyUnit render yesorno float = ElementClass (TallyElement (TallyUnit_class render yesorno float))"

subsection \<open>TallyReport\<close>

text \<open>An lxml element of a request: tag, attributes, text and children.\<close>

datatype etree = Element string "(string \<times> string) list" "string option" "etree list"

text \<open>
  \<^verbatim>\<open>_header\<close>: a string, a \<^verbatim>\<open>TallyRequestHeader\<close> (its version already a
  string), or something else.
\<close>

datatype header =
    HeaderStr string
  | TallyRequestHeader string string string string
  | HeaderOther

text \<open>
  The class attributes of a TallyReport subclass, and its
  \<^verbatim>\<open>_build_request_body\<close> as a function of the company name.
\<close>

record tally_report_class =
  cls_header :: header
  cls_container :: "string option"
  cls_cachename :: "string option"
  cls_content :: "(string \<times> string \<times> (pyarg \<Rightarrow> ref option \<Rightarrow> exc + val)) list"
  build_request_body :: "string option \<Rightarrow> exc + etree"

text \<open>The base class, lines 190 to 193 and 238 to 239.\<close>

definition TallyReport :: tally_report_class where
  "TallyReport =
     \<lparr> cls_header = HeaderStr ''Export Data'',
       cls_container = None,
       cls_cachename = None,
       cls_content = [],
       build_request_body = (\<lambda>company_name. Inl NotImplementedError) \<rparr>"

text \<open>
  An instance: its own reference, \<^verbatim>\<open>_company_name\<close>, \<^verbatim>\<open>_soup\<close> and the
  attributes that \<^verbatim>\<open>__setattr__\<close> has put in its dictionary, each a reference to
  an object on the heap.
\<close>

record tally_report =
  self_ref :: ref
  self_company_name :: "string option"
  self_soup :: "node option"
  self_dict :: "(string \<times> ref) list"

text \<open>
  A \<^verbatim>\<open>CaseInsensitiveDict\<close>: the lower-cased key, with the key as given and
  the value, in the order of first insertion.
\<close>

type_synonym cidict = "(string \<times> string \<times> val) list"

text \<open>
  What lies outside the report: the remote end (\<open>post\<close> is \<^verbatim>\<open>requests.post\<close>,
  None a ConnectionError), the parser, the cache store \<^verbatim>\<open>cachefs\<close> (None when
  there is none) with the files it holds, the calls of \<^verbatim>\<open>cachefs.open\<close> so far
  (the file name, and whether for writing), and the heap of mapping objects.
\<close>

record world =
  post :: "etree \<Rightarrow> string option"
  parse :: "string \<Rightarrow> node"
  cachefs :: "(string \<times> string) list option"
  opened :: "(string \<times> bool) list"
  heap :: "cidict list"

definition replace_char :: "char \<Rightarrow> string \<Rightarrow> string \<Rightarrow> string" where
  "replace_char old new s = concat (map (\<lambda>c. if c = old then new else [c]) s)"

text \<open>The \<^verbatim>\<open>cachename\<close> property, lines 205 to 212.\<close>

definition TallyReport_cachename :: "tally_report_class \<Rightarrow> tally_report \<Rightarrow> exc + string option" where
  "TallyReport_cachename rc r =
     (case cls_cachename rc of
        None \<Rightarrow> Inr None
      | Some cn \<Rightarrow>
          if cn = [] then Inr None
          else
            (case self_company_name r of
               None \<Rightarrow> Inl AttributeError
             | Some name \<Rightarrow>
                 Inr (Some (cn @ ''.'' @
                   replace_char (CHR ''-'') [] (replace_char (CHR ''.'') []
                     (replace_char (CHR '' '') ''_'' name))))))"

text \<open>\<^verbatim>\<open>_build_request_header\<close>, lines 241 to 256.\<close>

definition build_request_header :: "header \<Rightarrow> etree" where
  "build_request_header h =
     (case h of
        HeaderStr s \<Rightarrow>
          Element ''HEADER'' [] None [Element ''TALLYREQUEST'' [] (Some s) []]
      | TallyRequestHeader version tallyrequest ty ident \<Rightarrow>
          Element ''HEADER'' [] None
            [Element ''VERSION'' [] (Some version) [],
             Element ''TALLYREQUEST'' [] (Some tallyrequest) [],
             Element ''TYPE'' [] (Some ty) [],
             Element ''ID'' [] (Some ident) []]
      | HeaderOther \<Rightarrow> Element ''HEADER'' [] None [])"

text \<open>The \<^verbatim>\<open>query\<close> setter of the engine, lines 337 to 343.\<close>

definition query :: "etree \<times> etree \<Rightarrow> etree" where
  "query params =
     (case params of (hdr, body) \<Rightarrow>
        Element ''ENVELOPE'' [] None [hdr, Element ''BODY'' [] None [body]])"

definition cache_write :: "string \<Rightarrow> string \<Rightarrow> (string \<times> string) list \<Rightarrow> (string \<times> string) list" where
  "cache_write name content fs = (name, content) # filter (\<lambda>(n, c). n \<noteq> name) fs"

text \<open>
  \<^verbatim>\<open>TallyXMLEngine.execute\<close>, lines 308 to 325: a failed connection raises
  TallyNotAvailable; a response is written to the cache when there is a store and a
  cache name, and parsed.
\<close>

definition execute :: "world \<Rightarrow> etree \<times> etree \<Rightarrow> string option \<Rightarrow> (exc + node) \<times> world" where
  "execute w params cachename =
     (case post w (query params) of
        None \<Rightarrow> (Inl TallyNotAvailable, w)
      | Some content \<Rightarrow>
          (case (cachefs w, cachename) of
             (Some fs, Some cn) \<Rightarrow>
               if cn \<noteq> [] then
                 (Inr (parse w content),
                  w\<lparr>cachefs := Some (cache_write (cn @ ''.xml'') content fs),
                    opened := opened w @ [(cn @ ''.xml'', True)]\<rparr>)
               else (Inr (parse w content), w)
           | _ \<Rightarrow> (Inr (parse w content), w)))"

text \<open>
  \<^verbatim>\<open>_acquire_raw_response\<close>, lines 258 to 262. The engine kept in
  \<^verbatim>\<open>_xion\<close> is read nowhere else and is left out.
\<close>

definition acquire_raw_response ::
  "tally_report_class \<Rightarrow> tally_report \<Rightarrow> world \<Rightarrow> (exc + unit) \<times> tally_report \<times> world"
where
  "acquire_raw_response rc r w =
     (case build_request_body rc (self_company_name r) of
        Inl e \<Rightarrow> (Inl e, r, w)
      | Inr body \<Rightarrow>
          (case TallyReport_cachename rc r of
             Inl e \<Rightarrow> (Inl e, r, w)
           | Inr cachename \<Rightarrow>
               (case execute w (build_request_header (cls_header rc), body) cachename of
                  (Inl e, w') \<Rightarrow> (Inl e, r, w')
                | (Inr s, w') \<Rightarrow> (Inr (), r\<lparr>self_soup := Some s\<rparr>, w'))))"

text \<open>
  \<^verbatim>\<open>_acquire_cached_raw_response\<close>, lines 264 to 270: whatever goes wrong in the
  \<^verbatim>\<open>try\<close> block becomes TallyNotAvailable.
\<close>

definition acquire_cached_raw_response ::
  "tally_report_class \<Rightarrow> tally_report \<Rightarrow> world \<Rightarrow> (exc + unit) \<times> tally_report \<times> world"
where
  "acquire_cached_raw_response rc r w =
     (case TallyReport_cachename rc r of
        Inl e \<Rightarrow> (Inl TallyNotAvailable, r, w)
      | Inr None \<Rightarrow> (Inl TallyNotAvailable, r, w)
      | Inr (Some cn) \<Rightarrow>
          (case cachefs w of
             None \<Rightarrow> (Inl TallyNotAvailable, r, w)
           | Some fs \<Rightarrow>
               (case map_of fs (cn @ ''.xml'') of
                  None \<Rightarrow>
                    (Inl TallyNotAvailable, r, w\<lparr>opened := opened w @ [(cn @ ''.xml'', False)]\<rparr>)
                | Some content \<Rightarrow>
                    (Inr (), r\<lparr>self_soup := Some (parse w content)\<rparr>,
                     w\<lparr>opened := opened w @ [(cn @ ''.xml'', False)]\<rparr>))))"

text \<open>The \<^verbatim>\<open>soup\<close> property, lines 272 to 284.\<close>

definition TallyReport_soup ::
  "tally_report_class \<Rightarrow> tally_report \<Rightarrow> world \<Rightarrow> (exc + node option) \<times> tally_report \<times> world"
where
  "TallyReport_soup rc r w =
     (case self_soup r of
        Some s \<Rightarrow> (Inr (self_soup r), r, w)
      | None \<Rightarrow>
          (case acquire_raw_response rc r w of
             (Inr u, r1, w1) \<Rightarrow> (Inr (self_soup r1), r1, w1)
           | (Inl e, r1, w1) \<Rightarrow>
               if e = TallyNotAvailable then
                 (case cachefs w1 of
                    None \<Rightarrow> (Inl e, r1, w1)
                  | Some fs \<Rightarrow>
                      (case TallyReport_cachename rc r1 of
                         Inl e' \<Rightarrow> (Inl e', r1, w1)
                       | Inr None \<Rightarrow> (Inl e, r1, w1)
                       | Inr (Some cn) \<Rightarrow>
                           (case acquire_cached_raw_response rc r1 w1 of
                              (Inl e', r2, w2) \<Rightarrow> (Inl e', r2, w2)
                            | (Inr u, r2, w2) \<Rightarrow> (Inr (self_soup r2), r2, w2))))
               else (Inl e, r1, w1)))"

definition lower :: "string \<Rightarrow> string" where
  "lower s =
     map (\<lambda>c. case map_of (zip ''ABCDEFGHIJKLMNOPQRSTUVWXYZ'' ''abcdefghijklmnopqrstuvwxyz'') c of
                None \<Rightarrow> c | Some l \<Rightarrow> l) s"

text \<open>\<^verbatim>\<open>y.name\<close>: an attribute that extraction has set, or an AttributeError.\<close>

fun getattr_name :: "val \<Rightarrow> exc + val" where
  "getattr_name (VObj soup ctx d) =
     (case map_of d ''name'' of None \<Rightarrow> Inl AttributeError | Some v \<Rightarrow> Inr v)"
| "getattr_name v = Inl AttributeError"

fun dict_setitem :: "'k \<Rightarrow> 'v \<Rightarrow> ('k \<times> 'v) list \<Rightarrow> ('k \<times> 'v) list" where
  "dict_setitem k v [] = [(k, v)]"
| "dict_setitem k v ((k', v') # d) =
     (if k' = k then (k, v) # d else (k', v') # dict_setitem k v d)"

text \<open>
  The loop \<^verbatim>\<open>for y in ...: val[y.name] = y\<close>, lines 293 to 295. The mapping
  calls \<^verbatim>\<open>key.lower()\<close>, which only a string has.
\<close>

fun fill :: "val list \<Rightarrow> cidict \<Rightarrow> exc + cidict" where
  "fill [] val = Inr val"
| "fill (y # ys) val =
     (case getattr_name y of
        Inl e \<Rightarrow> Inl e
      | Inr (VStr k) \<Rightarrow> fill ys (dict_setitem (lower k) (k, y) val)
      | Inr key \<Rightarrow> Inl AttributeError)"

text \<open>
  Lines 290 and 291: \<^verbatim>\<open>soup.find(self._container)\<close> when a container is
  configured; it gives the first matching descendant, or None.
\<close>

definition scoped :: "string option \<Rightarrow> node option \<Rightarrow> exc + node option" where
  "scoped container s =
     (case container of
        None \<Rightarrow> Inr s
      | Some c \<Rightarrow>
          if c = [] then Inr s
          else
            (case s of
               None \<Rightarrow> Inl AttributeError
             | Some n \<Rightarrow>
                 (case findChildren (Node n) c True of
                    Inl e \<Rightarrow> Inl e
                  | Inr [] \<Rightarrow> Inr None
                  | Inr (x # xs) \<Rightarrow> Inr (Some x))))"

text \<open>\<^verbatim>\<open>soup.findAll(name)\<close>, where \<^verbatim>\<open>soup\<close> may be None.\<close>

definition findAll :: "node option \<Rightarrow> string \<Rightarrow> exc + node list" where
  "findAll s name =
     (case s of
        None \<Rightarrow> Inl AttributeError
      | Some n \<Rightarrow> findChildren (Node n) name True)"

text \<open>
  Lines 290 to 295 of \<^verbatim>\<open>__getattr__\<close>: the mapping built from the document,
  with the report itself as the context of every element.
\<close>

definition build_mapping ::
  "string option \<Rightarrow> node option \<Rightarrow> string \<Rightarrow> (pyarg \<Rightarrow> ref option \<Rightarrow> exc + val) \<Rightarrow> ref
     \<Rightarrow> exc + cidict"
where
  "build_mapping container s0 name factory self =
     (case scoped container s0 of
        Inl e \<Rightarrow> Inl e
      | Inr s1 \<Rightarrow>
          (case findAll s1 name of
             Inl e \<Rightarrow> Inl e
           | Inr xs \<Rightarrow>
               (case comprehension (\<lambda>x. factory (Node x) (Some self)) xs of
                  Inl e \<Rightarrow> Inl e
                | Inr ys \<Rightarrow> fill ys [])))"

text \<open>
  \<^verbatim>\<open>__getattr__\<close>, lines 286 to 297. The new mapping is a new object on the
  heap; the instance's dictionary gets a reference to it.
\<close>

definition TallyReport_getattr ::
  "tally_report_class \<Rightarrow> tally_report \<Rightarrow> world \<Rightarrow> string \<Rightarrow> (exc + ref) \<times> tally_report \<times> world"
where
  "TallyReport_getattr rc r w item =
     (case map_of (cls_content rc) item of
        None \<Rightarrow> (Inl AttributeError, r, w)
      | Some (name, factory) \<Rightarrow>
          (case TallyReport_soup rc r w of
             (Inl e, r1, w1) \<Rightarrow> (Inl e, r1, w1)
           | (Inr s0, r1, w1) \<Rightarrow>
               (case build_mapping (cls_container rc) s0 name factory (self_ref r1) of
                  Inl e \<Rightarrow> (Inl e, r1, w1)
                | Inr val \<Rightarrow>
                    (Inr (length (heap w1)),
                     r1\<lparr>self_dict := dict_setitem item (length (heap w1)) (self_dict r1)\<rparr>,
                     w1\<lparr>heap := heap w1 @ [val]\<rparr>))))"

text \<open>
  Reading \<^verbatim>\<open>report.item\<close> for a name that is no attribute of the class: the
  instance's dictionary first, then \<^verbatim>\<open>__getattr__\<close>.
\<close>

definition TallyReport_attribute ::
  "tally_report_class \<Rightarrow> tally_report \<Rightarrow> world \<Rightarrow> string \<Rightarrow> (exc + ref) \<times> tally_report \<times> world"
where
  "TallyReport_attribute rc r w item =
     (case map_of (self_dict r) item of
        Some obj \<Rightarrow> (Inr obj, r, w)
      | None \<Rightarrow> TallyReport_getattr rc r w item)"

subsection \<open>Examples\<close>

text \<open>
  The inputs of the examples below. \<open>markup\<close> writes a tag without attributes and
  stands for the renderer; \<open>plain_digits\<close> accepts no numeric string beyond digits.
  In the examples \<^verbatim>\<open>str\<close> meets text only, and \<^verbatim>\<open>Decimal\<close> meets digits or
  blank text only.
\<close>

fun markup :: "node \<Rightarrow> string" where
  "markup (NavigableString s) = s"
| "markup (Tag nm ats cs) = ''<'' @ nm @ ''>'' @ concat (map markup cs) @ ''</'' @ nm @ ''>''"

definition plain_digits :: "string \<Rightarrow> exc + val" where
  "plain_digits t = Inl InvalidOperation"

text \<open>A class with an optional attribute and two required elements, and a document for it.\<close>

definition unit_class :: tally_class where
  "unit_class =
     \<lparr> elements =
         [(''name'', (''name'', StrType markup, True)),
          (''decimalplaces'', (''decimalplaces'', IntType, True))],
       descendent_elements = [],
       attrs = [(''reservedname'', (''reservedname'', StrType markup, False))],
       lists = [],
       multilines = [] \<rparr>"

definition kg_node :: node where
  "kg_node =
     Tag ''unit'' [(''reservedname'', ''kgs'')]
       [Tag ''name'' [] [NavigableString ''kg''],
        Tag ''decimalplaces'' [] [NavigableString '' 2 '']]"

definition kg_unit :: val where
  "kg_unit =
     VObj (Node kg_node) (Some 7)
       [(''reservedname'', VStr ''kgs''), (''name'', VStr ''kg''), (''decimalplaces'', VInt 2)]"

text \<open>A class with one list of units, and a document whose unit has a malformed number.\<close>

definition ledger_class :: tally_class where
  "ledger_class =
     \<lparr> elements = [],
       descendent_elements = [],
       attrs = [],
       lists = [(''units'', (''unit'', ElementClass (TallyElement unit_class)))],
       multilines = [] \<rparr>"

definition ledger_node :: node where
  "ledger_node =
     Tag ''ledger'' []
       [Tag ''unit.list'' [] [Tag ''name'' [] [NavigableString ''kg''],
                              Tag ''decimalplaces'' [] [NavigableString ''two'']]]"

text \<open>A response, a report class with one collection, a report, and two worlds.\<close>

definition envelope :: node where
  "envelope = Tag ''envelope'' [] [kg_node]"

definition units_report :: tally_report_class where
  "units_report =
     \<lparr> cls_header = HeaderStr ''Export Data'',
       cls_container = None,
       cls_cachename = Some ''units'',
       cls_content = [(''units'', (''unit'', TallyElement unit_class))],
       build_request_body = (\<lambda>company_name. Inr (Element ''DESC'' [] None [])) \<rparr>"

definition acme :: tally_report where
  "acme = \<lparr> self_ref = 7, self_company_name = Some ''Acme Co.'', self_soup = None,
            self_dict = [] \<rparr>"

definition offline :: world where
  "offline =
     \<lparr> post = (\<lambda>q. None),
       parse = (\<lambda>content. envelope),
       cachefs = Some [(''units.Acme_Co.xml'', ''<envelope/>'')],
       opened = [],
       heap = [] \<rparr>"

definition online :: world where
  "online =
     \<lparr> post = (\<lambda>q. Some ''<envelope/>''),
       parse = (\<lambda>content. envelope),
       cachefs = None,
       opened = [],
       heap = [] \<rparr>"

section \<open>Properties\<close>

subsection \<open>Facts about the helpers\<close>

lemma kg_unit_extracted: "TallyElement unit_class (Node kg_node) (Some 7) = Inr kg_unit"
  by (simp add: TallyElement_def populate_def unit_class_def kg_node_def kg_unit_def
      process_attrs_def process_elements_def process_lists_def process_multilines_def
      process_descendent_elements_def attrs_field_def attrs_try_def elements_field_def
      elements_try_def StrType_def py_str_def IntType_def py_int_def strip_def is_space_def
      is_digit_def digits_value_def digit_value_def str_join_def)

lemma comprehension_raises:
  "x \<in> set xs \<Longrightarrow> f x = Inl e \<Longrightarrow>
     \<exists>x' e'. x' \<in> set xs \<and> f x' = Inl e' \<and> comprehension f xs = Inl e'"
proof (induction xs)
  case Nil
  then show ?case by simp
next
  case (Cons a xs)
  show ?case
  proof (cases "f a")
    case (Inl e0)
    then show ?thesis by auto
  next
    case (Inr y)
    with Cons.prems have "x \<in> set xs" by auto
    from Cons.IH [OF this Cons.prems(2)] obtain x' e'
      where "x' \<in> set xs" "f x' = Inl e'" "comprehension f xs = Inl e'" by blast
    with Inr show ?thesis by auto
  qed
qed

lemma as_strs_VStr: "as_strs (map VStr ss) = Some ss"
  by (induction ss) simp_all

lemma str_join_VStr: "str_join sep (map VStr ss) = Inr (VStr (join sep ss))"
  by (simp add: str_join_def as_strs_VStr)

lemma str_join_VStr_comp:
  "str_join sep (map (VStr \<circ> f) xs) = Inr (VStr (join sep (map f xs)))"
  using str_join_VStr [of sep "map f xs"] by simp

lemma str_join_Nil: "str_join sep [] = Inr (VStr [])"
  by (simp add: str_join_def)

lemma for_items_raises:
  "(k, v) \<in> set table \<Longrightarrow> body v = Inl e \<Longrightarrow> \<exists>e'. for_items body table d = Inl e'"
  by (induction body table d rule: for_items.induct) (auto split: sum.splits)

lemma for_items_returns:
  assumes "for_items body table d = Inr d'" and "(k, v) \<in> set table"
  shows "\<exists>val. body v = Inr val"
proof (cases "body v")
  case (Inl e)
  from for_items_raises [where k = k and v = v and table = table and body = body and e = e and d = d]
    assms Inl
  show ?thesis by auto
next
  case (Inr val)
  then show ?thesis by blast
qed

lemma findChildren_of_tag:
  "is_tag_named name c \<Longrightarrow>
     findChildren (Node c) name' True = Inr (filter (is_tag_named name') (descendants c))"
  by (cases c) simp_all

lemma str_comprehension:
  "comprehension (\<lambda>c. call1 (StrType render) (Text (get_text c))) xs = Inr (map VStr (map get_text xs))"
  by (induction xs) (simp_all add: StrType_def py_str_def)

lemma is_str_Str: "is_str (StrType render)"
  by (simp add: StrType_def)

lemma map_of_dict_setitem: "map_of (dict_setitem k v d) k = Some v"
  by (induction d) auto

subsection \<open>C1: two or more candidates for a single-candidate rule\<close>

text \<open>
  Claim C1 says that two or more matching candidates raise the ambiguous-match error
  whatever the required flag. In the elements pass the error is a NameError, which the
  \<^verbatim>\<open>except\<close> clause of the same loop lists: on an optional rule it becomes None.
  Here an optional \<^verbatim>\<open>int\<close> rule meets two matching children.
\<close>

theorem ambiguous_optional_counterexample:
  "elements_field
     (Node (Tag ''unit'' []
        [Tag ''decimalplaces'' [] [NavigableString ''2''],
         Tag ''decimalplaces'' [] [NavigableString ''3'']])) None
     (''decimalplaces'', IntType, False) = Inr VNone"
  by (simp add: elements_field_def elements_try_def elements_except_def IntType_def)

text \<open>
  Claim C1 as amended: on a node with two or more matching candidates, an elements or
  descendantElements rule whose valueType is not \<^verbatim>\<open>str\<close> raises the ambiguous-match
  error (a NameError) when it is required and gives None when it is optional; a
  multilines rule with two or more \<^verbatim>\<open><sourceName>.list\<close> containers raises (a
  bare Exception) whatever its required flag.
\<close>

theorem ambiguous_match_policy:
  "(\<not> is_str ty \<and> 2 \<le> length (filter (is_tag_named src) cs) \<longrightarrow>
      elements_field (Node (Tag nm ats cs)) ctx (src, ty, req) =
        (if req then Inl NameError else Inr VNone))
   \<and> (\<not> is_str ty \<and> 2 \<le> length (filter (is_tag_named src) (descendants (Tag nm ats cs))) \<longrightarrow>
      descendent_elements_field (Node (Tag nm ats cs)) ctx (src, ty, req) =
        (if req then Inl NameError else Inr VNone))
   \<and> (2 \<le> length (filter (is_tag_named (src @ ''.list'')) (descendants (Tag nm ats cs))) \<longrightarrow>
      multilines_field (Node (Tag nm ats cs)) (src, ty, req) = Inl PyException)"
  by (simp add: elements_field_def elements_try_def elements_except_def
      descendent_elements_field_def descendent_elements_try_def descendent_elements_except_def
      multilines_field_def multilines_try_def multilines_except_def
      del: descendants.simps)

text \<open>
  Claim C1 as amended, at a required \<^verbatim>\<open>int\<close> rule with two matching children.
\<close>

theorem ambiguous_match_policy_witness:
  "\<not> is_str IntType
   \<and> 2 \<le> length (filter (is_tag_named ''decimalplaces'')
        [Tag ''decimalplaces'' [] [NavigableString ''2''],
         Tag ''decimalplaces'' [] [NavigableString ''3'']])
   \<and> elements_field
       (Node (Tag ''unit'' []
          [Tag ''decimalplaces'' [] [NavigableString ''2''],
           Tag ''decimalplaces'' [] [NavigableString ''3'']])) None
       (''decimalplaces'', IntType, True) = Inl NameError"
  using ambiguous_match_policy
    [of IntType "''decimalplaces''"
        "[Tag ''decimalplaces'' [] [NavigableString ''2''],
          Tag ''decimalplaces'' [] [NavigableString ''3'']]" "''unit''" "[]" None True]
  by (simp add: IntType_def)

subsection \<open>C2: a ValueError and the optional flag\<close>

lemma elements_except_ValueError: "elements_except v ValueError = Inl ValueError"
  by (cases v) (simp add: elements_except_def)

lemma descendent_elements_except_ValueError:
  "descendent_elements_except v ValueError = Inl ValueError"
  by (cases v) (simp add: descendent_elements_except_def)

lemma multilines_except_ValueError: "multilines_except v ValueError = Inl ValueError"
  by (cases v) (simp add: multilines_except_def)

lemma elements_field_returns:
  "elements_field soup ctx v = Inr val \<Longrightarrow> elements_try soup ctx v \<noteq> Inl ValueError"
  by (auto simp: elements_field_def elements_except_ValueError)

lemma descendent_elements_field_returns:
  "descendent_elements_field soup ctx v = Inr val \<Longrightarrow>
     descendent_elements_try soup ctx v \<noteq> Inl ValueError"
  by (auto simp: descendent_elements_field_def descendent_elements_except_ValueError)

lemma multilines_field_returns:
  "multilines_field soup v = Inr val \<Longrightarrow> multilines_try soup v \<noteq> Inl ValueError"
  by (auto simp: multilines_field_def multilines_except_ValueError)

lemma TallyElement_returns:
  assumes "TallyElement cls soup ctx = Inr obj"
  obtains d1 d2 d3 d4 d5 where
    "process_attrs (attrs cls) soup [] = Inr d1"
    "process_elements (elements cls) soup ctx d1 = Inr d2"
    "process_lists (lists cls) soup ctx d2 = Inr d3"
    "process_multilines (multilines cls) soup d3 = Inr d4"
    "process_descendent_elements (descendent_elements cls) soup ctx d4 = Inr d5"
proof -
  obtain d1 where a: "process_attrs (attrs cls) soup [] = Inr d1"
    using assms
    by (cases "process_attrs (attrs cls) soup []") (simp_all add: TallyElement_def populate_def)
  obtain d2 where b: "process_elements (elements cls) soup ctx d1 = Inr d2"
    using assms a
    by (cases "process_elements (elements cls) soup ctx d1")
      (simp_all add: TallyElement_def populate_def)
  obtain d3 where c: "process_lists (lists cls) soup ctx d2 = Inr d3"
    using assms a b
    by (cases "process_lists (lists cls) soup ctx d2")
      (simp_all add: TallyElement_def populate_def)
  obtain d4 where d: "process_multilines (multilines cls) soup d3 = Inr d4"
    using assms a b c
    by (cases "process_multilines (multilines cls) soup d3")
      (simp_all add: TallyElement_def populate_def)
  obtain d5 where e: "process_descendent_elements (descendent_elements cls) soup ctx d4 = Inr d5"
    using assms a b c d
    by (cases "process_descendent_elements (descendent_elements cls) soup ctx d4")
      (simp_all add: TallyElement_def populate_def)
  from a b c d e show ?thesis
    by (rule that)
qed

text \<open>
  Claim C2 says that no pass swallows a ValueError. The attrs pass has a bare
  \<^verbatim>\<open>except\<close>: on an optional attribute whose text \<^verbatim>\<open>int\<close> rejects with a
  ValueError, the attribute becomes None.
\<close>

theorem optional_attr_value_error_counterexample:
  "attrs_field (Node (Tag ''unit'' [(''decimalplaces'', ''two'')] []))
     (''decimalplaces'', IntType, False) = Inr VNone
   \<and> attrs_try (Node (Tag ''unit'' [(''decimalplaces'', ''two'')] []))
     (''decimalplaces'', IntType, False) = Inl ValueError"
  by (simp add: attrs_field_def attrs_try_def attrs_except_def IntType_def py_int_def
      strip_def is_space_def is_digit_def)

text \<open>
  Claim C2 as amended: in the elements, descendantElements and multilines passes a
  ValueError raised in the \<^verbatim>\<open>try\<close> block leaves the rule as a ValueError, whatever
  the required flag, and the lists pass catches nothing; so when the extraction of an
  element returns, no rule of these four passes has raised a ValueError. In the attrs
  pass a ValueError is raised again on a required rule and becomes None on an optional
  one.
\<close>

theorem value_error_policy:
  "(elements_try soup ctx v = Inl ValueError \<longrightarrow> elements_field soup ctx v = Inl ValueError)
   \<and> (descendent_elements_try soup ctx v = Inl ValueError \<longrightarrow>
        descendent_elements_field soup ctx v = Inl ValueError)
   \<and> (multilines_try soup v = Inl ValueError \<longrightarrow> multilines_field soup v = Inl ValueError)
   \<and> (attrs_try soup (v0, v1, v2) = Inl ValueError \<longrightarrow>
        attrs_field soup (v0, v1, v2) = (if v2 then Inl ValueError else Inr VNone))
   \<and> (TallyElement cls soup ctx = Inr obj \<longrightarrow>
        (\<forall>(k, v) \<in> set (elements cls). elements_try soup ctx v \<noteq> Inl ValueError)
      \<and> (\<forall>(k, v) \<in> set (descendent_elements cls).
            descendent_elements_try soup ctx v \<noteq> Inl ValueError)
      \<and> (\<forall>(k, v) \<in> set (multilines cls). multilines_try soup v \<noteq> Inl ValueError)
      \<and> (\<forall>(k, v) \<in> set (lists cls). lists_field soup ctx v \<noteq> Inl ValueError))"
proof -
  have fields:
    "(elements_try soup ctx v = Inl ValueError \<longrightarrow> elements_field soup ctx v = Inl ValueError)
   \<and> (descendent_elements_try soup ctx v = Inl ValueError \<longrightarrow>
        descendent_elements_field soup ctx v = Inl ValueError)
   \<and> (multilines_try soup v = Inl ValueError \<longrightarrow> multilines_field soup v = Inl ValueError)
   \<and> (attrs_try soup (v0, v1, v2) = Inl ValueError \<longrightarrow>
        attrs_field soup (v0, v1, v2) = (if v2 then Inl ValueError else Inr VNone))"
    by (simp add: elements_field_def elements_except_ValueError descendent_elements_field_def
        descendent_elements_except_ValueError multilines_field_def multilines_except_ValueError
        attrs_field_def attrs_except_def)
  have whole:
      "(\<forall>(k, v) \<in> set (elements cls). elements_try soup ctx v \<noteq> Inl ValueError)
      \<and> (\<forall>(k, v) \<in> set (descendent_elements cls).
            descendent_elements_try soup ctx v \<noteq> Inl ValueError)
      \<and> (\<forall>(k, v) \<in> set (multilines cls). multilines_try soup v \<noteq> Inl ValueError)
      \<and> (\<forall>(k, v) \<in> set (lists cls). lists_field soup ctx v \<noteq> Inl ValueError)"
    if ret: "TallyElement cls soup ctx = Inr obj"
  proof -
    from ret obtain d1 d2 d3 d4 d5 where
      el: "process_elements (elements cls) soup ctx d1 = Inr d2" and
      li: "process_lists (lists cls) soup ctx d2 = Inr d3" and
      ml: "process_multilines (multilines cls) soup d3 = Inr d4" and
      de: "process_descendent_elements (descendent_elements cls) soup ctx d4 = Inr d5"
      by (rule TallyElement_returns)
    have 1: "elements_try soup ctx v \<noteq> Inl ValueError" if "(k, v) \<in> set (elements cls)" for k v
      using for_items_returns [where body = "elements_field soup ctx" and k = k and v = v
          and table = "elements cls" and d = d1 and d' = d2] el that
      by (auto simp: process_elements_def dest: elements_field_returns)
    have 2: "descendent_elements_try soup ctx v \<noteq> Inl ValueError"
      if "(k, v) \<in> set (descendent_elements cls)" for k v
      using for_items_returns [where body = "descendent_elements_field soup ctx" and k = k
          and v = v and table = "descendent_elements cls" and d = d4 and d' = d5] de that
      by (auto simp: process_descendent_elements_def dest: descendent_elements_field_returns)
    have 3: "multilines_try soup v \<noteq> Inl ValueError" if "(k, v) \<in> set (multilines cls)" for k v
      using for_items_returns [where body = "multilines_field soup" and k = k and v = v
          and table = "multilines cls" and d = d3 and d' = d4] ml that
      by (auto simp: process_multilines_def dest: multilines_field_returns)
    have 4: "lists_field soup ctx v \<noteq> Inl ValueError" if "(k, v) \<in> set (lists cls)" for k v
      using for_items_returns [where body = "lists_field soup ctx" and k = k and v = v
          and table = "lists cls" and d = d2 and d' = d3] li that
      by (auto simp: process_lists_def)
    from 1 2 3 4 show ?thesis
      by blast
  qed
  from fields whole show ?thesis
    by blast
qed

text \<open>
  Claim C2 as amended, at an optional \<^verbatim>\<open>int\<close> element whose text is not a number,
  and at the extraction of a well-formed unit.
\<close>

theorem value_error_policy_witness:
  "elements_try (Node (Tag ''unit'' [] [Tag ''decimalplaces'' [] [NavigableString ''two'']])) None
     (''decimalplaces'', IntType, False) = Inl ValueError
   \<and> elements_field (Node (Tag ''unit'' [] [Tag ''decimalplaces'' [] [NavigableString ''two'']])) None
     (''decimalplaces'', IntType, False) = Inl ValueError
   \<and> TallyElement unit_class (Node kg_node) (Some 7) = Inr kg_unit
   \<and> (''decimalplaces'', ''decimalplaces'', IntType, True) \<in> set (elements unit_class)
   \<and> elements_try (Node kg_node) (Some 7) (''decimalplaces'', IntType, True) \<noteq> Inl ValueError"
proof -
  have raised: "elements_try (Node (Tag ''unit'' [] [Tag ''decimalplaces'' [] [NavigableString ''two'']])) None
     (''decimalplaces'', IntType, False) = Inl ValueError"
    by (simp add: elements_try_def IntType_def py_int_def strip_def is_space_def is_digit_def)
  have returned: "TallyElement unit_class (Node kg_node) (Some 7) = Inr kg_unit"
    by (rule kg_unit_extracted)
  note at_field = value_error_policy
    [of "Node (Tag ''unit'' [] [Tag ''decimalplaces'' [] [NavigableString ''two'']])"
      None "(''decimalplaces'', IntType, False)"]
  note at_unit = value_error_policy
    [where cls = unit_class and soup = "Node kg_node" and ctx = "Some 7" and obj = kg_unit]
  from at_field [THEN conjunct1, THEN mp, OF raised]
  have field: "elements_field (Node (Tag ''unit'' [] [Tag ''decimalplaces'' [] [NavigableString ''two'']])) None
     (''decimalplaces'', IntType, False) = Inl ValueError" .
  from at_unit [THEN conjunct2, THEN conjunct2, THEN conjunct2, THEN conjunct2, THEN mp,
      OF returned, THEN conjunct1]
  have whole: "\<forall>(k, v) \<in> set (elements unit_class).
        elements_try (Node kg_node) (Some 7) v \<noteq> Inl ValueError" .
  have rule: "(''decimalplaces'', ''decimalplaces'', IntType, True) \<in> set (elements unit_class)"
    by (simp add: unit_class_def)
  from bspec [OF whole rule]
  have at_rule: "elements_try (Node kg_node) (Some 7) (''decimalplaces'', IntType, True) \<noteq>
      Inl ValueError"
    by simp
  from raised field returned rule at_rule show ?thesis
    by (intro conjI)
qed

subsection \<open>C3: an element-typed rule in the elements passes\<close>

lemma elements_try_element_class:
  "filter (is_tag_named src) cs = [c] \<Longrightarrow>
     elements_try (Node (Tag nm ats cs)) ctx (src, ElementClass g, req) = g (Text (get_text c)) ctx"
  by (simp add: elements_try_def)

lemma lists_field_element_class:
  "lists_field (Node (Tag nm ats cs)) ctx (src, ElementClass g) =
     (case comprehension (\<lambda>c. g (Node c) ctx)
        (filter (is_tag_named (src @ ''.list'')) (descendants (Tag nm ats cs))) of
        Inl e \<Rightarrow> Inl e
      | Inr items \<Rightarrow> Inr (VList items))"
  by (simp add: lists_field_def del: descendants.simps)

text \<open>
  Claim C3 says that an elements or descendantElements rule whose valueType is a
  TallyElement subclass constructs that class from the candidate node, as the lists
  pass does. Lines 97 and 123 pass \<^verbatim>\<open>candidates[0].text\<close> instead, and a string
  has neither attributes nor children: with the unit document as the only candidate,
  the constructor raises an AttributeError, so that an optional rule gives None and a
  required rule raises, where the same class built from the node itself gives the
  unit.
\<close>

theorem nested_element_built_from_text:
  "elements_field (Node (Tag ''stockitem'' [] [kg_node])) (Some 7)
     (''unit'', ElementClass (TallyElement unit_class), False) = Inr VNone
   \<and> elements_field (Node (Tag ''stockitem'' [] [kg_node])) (Some 7)
     (''unit'', ElementClass (TallyElement unit_class), True) = Inl AttributeError
   \<and> descendent_elements_field (Node (Tag ''stockitem'' [] [kg_node])) (Some 7)
     (''unit'', ElementClass (TallyElement unit_class), False) = Inr VNone
   \<and> TallyElement unit_class (Node kg_node) (Some 7) = Inr kg_unit"
proof -
  have from_text: "TallyElement unit_class (Text s) ctx = Inl AttributeError" for s ctx
    by (simp add: TallyElement_def populate_def unit_class_def
        process_attrs_def process_elements_def attrs_field_def attrs_try_def attrs_except_def
        elements_field_def elements_try_def elements_except_def)
  have children: "is_tag_named ''unit'' kg_node"
    by (simp add: kg_node_def)
  have below: "filter (is_tag_named ''unit'') (descendants kg_node) = []"
    by (simp add: kg_node_def)
  have optional: "elements_field (Node (Tag ''stockitem'' [] [kg_node])) (Some 7)
     (''unit'', ElementClass (TallyElement unit_class), False) = Inr VNone"
    by (simp add: children from_text elements_field_def elements_try_def elements_except_def)
  have required: "elements_field (Node (Tag ''stockitem'' [] [kg_node])) (Some 7)
     (''unit'', ElementClass (TallyElement unit_class), True) = Inl AttributeError"
    by (simp add: children from_text elements_field_def elements_try_def elements_except_def)
  have descendent: "descendent_elements_field (Node (Tag ''stockitem'' [] [kg_node])) (Some 7)
     (''unit'', ElementClass (TallyElement unit_class), False) = Inr VNone"
    by (simp add: children below from_text descendent_elements_field_def
        descendent_elements_try_def descendent_elements_except_def)
  from optional required descendent kg_unit_extracted show ?thesis
    by (intro conjI)
qed

subsection \<open>C4: a blank Decimal\<close>

lemma Decimal_of_zero: "py_Decimal literal (Text ''0'') = Inr (VDecimal 0 0)"
  by (simp add: py_Decimal_def strip_def is_space_def is_digit_def digits_value_def
      digit_value_def)

lemma Decimal_of_blank: "strip s = [] \<Longrightarrow> py_Decimal literal (Text s) = Inl InvalidOperation"
  by (simp add: py_Decimal_def)

lemma elements_blank_decimal:
  "filter (is_tag_named src) cs = [c] \<Longrightarrow> strip (get_text c) = [] \<Longrightarrow>
     elements_field (Node (Tag nm ats cs)) ctx (src, DecimalType literal, req) =
       Inr (VDecimal 0 0)"
  by (simp add: elements_field_def elements_try_def DecimalType_def Decimal_of_zero)

lemma descendent_elements_blank_decimal:
  "filter (is_tag_named src) (descendants (Tag nm ats cs)) = [c] \<Longrightarrow>
   strip (get_text c) = [] \<Longrightarrow>
     descendent_elements_field (Node (Tag nm ats cs)) ctx (src, DecimalType literal, req) =
       (if req then Inl InvalidOperation else Inr VNone)"
  by (simp add: descendent_elements_field_def descendent_elements_try_def
      descendent_elements_except_def DecimalType_def Decimal_of_blank
      del: descendants.simps)

text \<open>
  Claim C4 says that a Decimal rule whose only candidate has blank text gives zero in
  the elements pass and in the descendantElements pass. The elements pass does (line
  98); the descendantElements pass has no such branch and calls \<^verbatim>\<open>Decimal\<close> on
  the blank text: a required rule raises an InvalidOperation, an optional one gives
  None.
\<close>

theorem descendent_blank_decimal_not_zero:
  "descendent_elements_field
     (Node (Tag ''voucher'' [] [Tag ''entry'' [] [Tag ''amount'' [] [NavigableString ''  '']]]))
     None (''amount'', DecimalType plain_digits, True) = Inl InvalidOperation
   \<and> descendent_elements_field
     (Node (Tag ''voucher'' [] [Tag ''entry'' [] [Tag ''amount'' [] [NavigableString ''  '']]]))
     None (''amount'', DecimalType plain_digits, False) = Inr VNone
   \<and> elements_field (Node (Tag ''entry'' [] [Tag ''amount'' [] [NavigableString ''  '']]))
     None (''amount'', DecimalType plain_digits, True) = Inr (VDecimal 0 0)"
  by (simp add: descendent_elements_field_def descendent_elements_try_def
      descendent_elements_except_def elements_field_def elements_try_def DecimalType_def
      py_Decimal_def strip_def is_space_def is_digit_def digits_value_def digit_value_def)

subsection \<open>C5: a missing source node\<close>

text \<open>
  Claim C5 says that every required rule raises when its source node is missing. A
  required multilines rule without a container gives the empty string.
\<close>

theorem required_multiline_missing_counterexample:
  "multilines_field (Node (Tag ''ledger'' [] [Tag ''name'' [] [NavigableString ''Cash'']]))
     (''address'', StrType markup, True) = Inr (VStr [])"
  by (simp add: multilines_field_def multilines_try_def)

text \<open>
  Claim C5 as amended: when the source is missing, an attrs rule and an elements or
  descendantElements rule whose valueType is not \<^verbatim>\<open>str\<close> give None if optional
  and raise if required (a KeyError for an attribute, an IndexError for an element);
  an elements or descendantElements rule whose valueType is \<^verbatim>\<open>str\<close>, and a
  multilines rule, give the empty string whatever the required flag.
\<close>

theorem missing_source_policy:
  "(map_of ats src = None \<longrightarrow>
      attrs_field (Node (Tag nm ats cs)) (src, ty, req) =
        (if req then Inl KeyError else Inr VNone))
   \<and> (\<not> is_str ty \<and> filter (is_tag_named src) cs = [] \<longrightarrow>
      elements_field (Node (Tag nm ats cs)) ctx (src, ty, req) =
        (if req then Inl IndexError else Inr VNone))
   \<and> (\<not> is_str ty \<and> filter (is_tag_named src) (descendants (Tag nm ats cs)) = [] \<longrightarrow>
      descendent_elements_field (Node (Tag nm ats cs)) ctx (src, ty, req) =
        (if req then Inl IndexError else Inr VNone))
   \<and> (is_str ty \<and> filter (is_tag_named src) cs = [] \<longrightarrow>
      elements_field (Node (Tag nm ats cs)) ctx (src, ty, req) = Inr (VStr []))
   \<and> (is_str ty \<and> filter (is_tag_named src) (descendants (Tag nm ats cs)) = [] \<longrightarrow>
      descendent_elements_field (Node (Tag nm ats cs)) ctx (src, ty, req) = Inr (VStr []))
   \<and> (filter (is_tag_named (src @ ''.list'')) (descendants (Tag nm ats cs)) = [] \<longrightarrow>
      multilines_field (Node (Tag nm ats cs)) (src, ty, req) = Inr (VStr []))"
  by (simp add: attrs_field_def attrs_try_def attrs_except_def
      elements_field_def elements_try_def elements_except_def
      descendent_elements_field_def descendent_elements_try_def descendent_elements_except_def
      multilines_field_def multilines_try_def str_join_def
      del: descendants.simps)

text \<open>
  Claim C5 as amended, at a required attribute that is missing and at an optional and
  a required \<^verbatim>\<open>int\<close> element that are missing.
\<close>

theorem missing_source_policy_witness:
  "map_of [(''reservedname'', ''kgs'')] ''id'' = None
   \<and> attrs_field (Node (Tag ''unit'' [(''reservedname'', ''kgs'')] [])) (''id'', IntType, True) =
       Inl KeyError
   \<and> \<not> is_str IntType \<and> filter (is_tag_named ''decimalplaces'') [] = []
   \<and> elements_field (Node (Tag ''unit'' [] [])) None (''decimalplaces'', IntType, False) =
       Inr VNone
   \<and> elements_field (Node (Tag ''unit'' [] [])) None (''decimalplaces'', IntType, True) =
       Inl IndexError"
  using missing_source_policy
      [of "[(''reservedname'', ''kgs'')]" "''id''" "''unit''" "[]" IntType True None]
    missing_source_policy [of "[]" "''decimalplaces''" "''unit''" "[]" IntType False None]
    missing_source_policy [of "[]" "''decimalplaces''" "''unit''" "[]" IntType True None]
  by (simp add: IntType_def)

subsection \<open>C6: the cached response when the remote end is unreachable\<close>

lemma no_cachename: "cls_cachename rc = None \<Longrightarrow> TallyReport_cachename rc r = Inr None"
  by (simp add: TallyReport_cachename_def)

text \<open>
  Claim C6: for a report without a document, whose request body can be built and whose
  connection fails, reading \<^verbatim>\<open>soup\<close> with a cache name and a cache store opens
  the cache file of that name for reading: it returns the parsed cached response when
  the store holds the file, and raises TallyNotAvailable when it does not. When the
  class has no cache name it raises TallyNotAvailable and the world is as before, so
  the cache has not been opened.
\<close>

theorem soup_cache_fallback:
  assumes "self_soup r = None"
    and "build_request_body rc (self_company_name r) = Inr body"
    and "post w (query (build_request_header (cls_header rc), body)) = None"
  shows "(TallyReport_cachename rc r = Inr (Some cn) \<and> cachefs w = Some fs
          \<and> map_of fs (cn @ ''.xml'') = Some content \<longrightarrow>
            TallyReport_soup rc r w =
              (Inr (Some (parse w content)),
               r\<lparr>self_soup := Some (parse w content)\<rparr>,
               w\<lparr>opened := opened w @ [(cn @ ''.xml'', False)]\<rparr>))
       \<and> (TallyReport_cachename rc r = Inr (Some cn) \<and> cachefs w = Some fs
          \<and> map_of fs (cn @ ''.xml'') = None \<longrightarrow>
            TallyReport_soup rc r w =
              (Inl TallyNotAvailable, r, w\<lparr>opened := opened w @ [(cn @ ''.xml'', False)]\<rparr>))
       \<and> (cls_cachename rc = None \<longrightarrow>
            TallyReport_soup rc r w = (Inl TallyNotAvailable, r, w))"
proof -
  have cached: "TallyReport_soup rc r w =
      (Inr (Some (parse w content)),
       r\<lparr>self_soup := Some (parse w content)\<rparr>,
       w\<lparr>opened := opened w @ [(cn @ ''.xml'', False)]\<rparr>)"
    if "TallyReport_cachename rc r = Inr (Some cn)" and "cachefs w = Some fs"
      and "map_of fs (cn @ ''.xml'') = Some content"
    using assms that
    by (simp add: TallyReport_soup_def acquire_raw_response_def
        acquire_cached_raw_response_def execute_def)
  have absent: "TallyReport_soup rc r w =
      (Inl TallyNotAvailable, r, w\<lparr>opened := opened w @ [(cn @ ''.xml'', False)]\<rparr>)"
    if "TallyReport_cachename rc r = Inr (Some cn)" and "cachefs w = Some fs"
      and "map_of fs (cn @ ''.xml'') = None"
    using assms that
    by (simp add: TallyReport_soup_def acquire_raw_response_def
        acquire_cached_raw_response_def execute_def)
  have plain: "TallyReport_soup rc r w = (Inl TallyNotAvailable, r, w)"
    if "cls_cachename rc = None"
    using assms no_cachename [OF that, of r]
    by (simp add: TallyReport_soup_def acquire_raw_response_def execute_def
        split: option.splits)
  from cached absent plain show ?thesis
    by blast
qed

text \<open>
  Claim C6, at a report of Acme Co. with a cached response and no connection.
\<close>

theorem soup_cache_fallback_witness:
  "self_soup acme = None
   \<and> build_request_body units_report (self_company_name acme) = Inr (Element ''DESC'' [] None [])
   \<and> post offline (query (build_request_header (cls_header units_report),
        Element ''DESC'' [] None [])) = None
   \<and> TallyReport_cachename units_report acme = Inr (Some ''units.Acme_Co'')
   \<and> cachefs offline = Some [(''units.Acme_Co.xml'', ''<envelope/>'')]
   \<and> map_of [(''units.Acme_Co.xml'', ''<envelope/>'')] (''units.Acme_Co'' @ ''.xml'') =
       Some ''<envelope/>''
   \<and> TallyReport_soup units_report acme offline =
       (Inr (Some envelope), acme\<lparr>self_soup := Some envelope\<rparr>,
        offline\<lparr>opened := [(''units.Acme_Co.xml'', False)]\<rparr>)
   \<and> TallyReport_soup (units_report\<lparr>cls_cachename := None\<rparr>) acme offline =
       (Inl TallyNotAvailable, acme, offline)"
proof -
  have h1: "self_soup acme = None"
    by (simp add: acme_def)
  have h2: "build_request_body units_report (self_company_name acme) =
      Inr (Element ''DESC'' [] None [])"
    by (simp add: units_report_def)
  have h3: "post offline (query (build_request_header (cls_header units_report),
        Element ''DESC'' [] None [])) = None"
    by (simp add: offline_def)
  have h4: "TallyReport_cachename units_report acme = Inr (Some ''units.Acme_Co'')"
    by (simp add: TallyReport_cachename_def units_report_def acme_def replace_char_def)
  have h5: "cachefs offline = Some [(''units.Acme_Co.xml'', ''<envelope/>'')]"
    by (simp add: offline_def)
  have h6: "map_of [(''units.Acme_Co.xml'', ''<envelope/>'')] (''units.Acme_Co'' @ ''.xml'') =
       Some ''<envelope/>''"
    by simp
  have h7: "parse offline ''<envelope/>'' = envelope" "opened offline = []"
    by (simp_all add: offline_def)
  have g2: "build_request_body (units_report\<lparr>cls_cachename := None\<rparr>) (self_company_name acme) =
      Inr (Element ''DESC'' [] None [])"
    by (simp add: units_report_def)
  have g3: "post offline (query (build_request_header
        (cls_header (units_report\<lparr>cls_cachename := None\<rparr>)), Element ''DESC'' [] None [])) = None"
    by (simp add: offline_def)
  from soup_cache_fallback [OF h1 h2 h3, of "''units.Acme_Co''"
      "[(''units.Acme_Co.xml'', ''<envelope/>'')]" "''<envelope/>''"]
    soup_cache_fallback [OF h1 g2 g3] h1 h2 h3 h4 h5 h6 h7
  show ?thesis
    by simp
qed

subsection \<open>C7: multilines\<close>

lemma multilines_one_container:
  assumes "filter (is_tag_named (src @ ''.list'')) (descendants (Tag nm ats cs)) = [c]"
    and "comprehension (\<lambda>l. call1 ty (Text (strip (get_text l))))
           (filter (is_tag_named src) (descendants c)) = Inr lines"
  shows "multilines_try (Node (Tag nm ats cs)) (src, ty, req) =
           (if length lines = 1 then Inr (lines ! 0)
            else if length lines = 0 then Inr (VStr [])
            else str_join [CHR 0x0A] lines)"
proof -
  have "c \<in> set (filter (is_tag_named (src @ ''.list'')) (descendants (Tag nm ats cs)))"
    using assms(1) by simp
  then have "is_tag_named (src @ ''.list'') c"
    by simp
  then have "findChildren (Node c) src True = Inr (filter (is_tag_named src) (descendants c))"
    by (rule findChildren_of_tag)
  with assms show ?thesis
    by (simp add: multilines_try_def del: descendants.simps)
qed

text \<open>
  Claim C7 says that every multilines rule with two or more lines gives the lines
  joined by a newline. \<^verbatim>\<open>join\<close> takes strings only: on an optional
  \<^verbatim>\<open>int\<close> rule with two lines it raises a TypeError, which the
  \<^verbatim>\<open>except\<close> clause of the loop lists, and the value is None.
\<close>

theorem multilines_int_lines_counterexample:
  "multilines_field
     (Node (Tag ''item'' []
        [Tag ''qty.list'' []
           [Tag ''qty'' [] [NavigableString ''1''], Tag ''qty'' [] [NavigableString ''2'']]]))
     (''qty'', IntType, False) = Inr VNone"
  by (simp add: multilines_field_def multilines_try_def multilines_except_def IntType_def
      py_int_def strip_def is_space_def is_digit_def digits_value_def digit_value_def
      str_join_def)

text \<open>
  Claim C7 as amended: a multilines rule gives the empty string when there is no
  \<^verbatim>\<open><sourceName>.list\<close> container. With exactly one container \<open>c\<close>, whose lines
  are coerced from their stripped text to \<open>lines\<close>, it gives the empty string when
  there is no line and the line itself when there is one. When there are two or more,
  it gives the lines joined by a newline if every coerced line is a string; if one is
  not, \<^verbatim>\<open>join\<close> raises a TypeError, which gives None on an optional rule and is
  raised on a required one.
\<close>

theorem multilines_zero_one_many:
  "(filter (is_tag_named (src @ ''.list'')) (descendants (Tag nm ats cs)) = [] \<longrightarrow>
      multilines_field (Node (Tag nm ats cs)) (src, ty, req) = Inr (VStr []))
   \<and> (filter (is_tag_named (src @ ''.list'')) (descendants (Tag nm ats cs)) = [c]
      \<and> comprehension (\<lambda>l. call1 ty (Text (strip (get_text l))))
           (filter (is_tag_named src) (descendants c)) = Inr lines \<longrightarrow>
        (lines = [] \<longrightarrow>
           multilines_field (Node (Tag nm ats cs)) (src, ty, req) = Inr (VStr []))
      \<and> (lines = [x] \<longrightarrow>
           multilines_field (Node (Tag nm ats cs)) (src, ty, req) = Inr x)
      \<and> (lines = map VStr ss \<and> 2 \<le> length ss \<longrightarrow>
           multilines_field (Node (Tag nm ats cs)) (src, ty, req) =
             Inr (VStr (join [CHR 0x0A] ss)))
      \<and> (2 \<le> length lines \<and> as_strs lines = None \<longrightarrow>
           multilines_field (Node (Tag nm ats cs)) (src, ty, req) =
             (if req then Inl TypeError else Inr VNone)))"
proof -
  let ?one = "filter (is_tag_named (src @ ''.list'')) (descendants (Tag nm ats cs)) = [c]"
  let ?lines = "comprehension (\<lambda>l. call1 ty (Text (strip (get_text l))))
           (filter (is_tag_named src) (descendants c)) = Inr lines"
  have zero: "multilines_field (Node (Tag nm ats cs)) (src, ty, req) = Inr (VStr [])"
    if "filter (is_tag_named (src @ ''.list'')) (descendants (Tag nm ats cs)) = []"
    using that by (simp add: multilines_field_def multilines_try_def del: descendants.simps)
  have none: "multilines_field (Node (Tag nm ats cs)) (src, ty, req) = Inr (VStr [])"
    if ?one and ?lines and "lines = []"
    using multilines_one_container [OF that(1,2), of req] that(3)
    by (simp add: multilines_field_def)
  have single: "multilines_field (Node (Tag nm ats cs)) (src, ty, req) = Inr x"
    if ?one and ?lines and "lines = [x]"
    using multilines_one_container [OF that(1,2), of req] that(3)
    by (simp add: multilines_field_def)
  have many: "multilines_field (Node (Tag nm ats cs)) (src, ty, req) =
      Inr (VStr (join [CHR 0x0A] ss))"
    if ?one and ?lines and "lines = map VStr ss" and "2 \<le> length ss"
    using multilines_one_container [OF that(1,2), of req] that(3,4)
    by (simp add: multilines_field_def str_join_VStr)
  have mixed: "multilines_field (Node (Tag nm ats cs)) (src, ty, req) =
      (if req then Inl TypeError else Inr VNone)"
    if ?one and ?lines and "2 \<le> length lines" and "as_strs lines = None"
    using multilines_one_container [OF that(1,2), of req] that(3,4)
    by (auto simp: multilines_field_def multilines_except_def str_join_def)
  show ?thesis
    using zero none single many mixed by blast
qed

text \<open>
  Claim C7 as amended, at an address of two lines.
\<close>

theorem multilines_zero_one_many_witness:
  "filter (is_tag_named (''address'' @ ''.list''))
     (descendants (Tag ''ledger'' []
        [Tag ''address.list'' []
           [Tag ''address'' [] [NavigableString '' 12 High St ''],
            Tag ''address'' [] [NavigableString ''Pune'']]])) =
     [Tag ''address.list'' []
        [Tag ''address'' [] [NavigableString '' 12 High St ''],
         Tag ''address'' [] [NavigableString ''Pune'']]]
   \<and> comprehension (\<lambda>l. call1 (StrType markup) (Text (strip (get_text l))))
       (filter (is_tag_named ''address'')
          (descendants (Tag ''address.list'' []
             [Tag ''address'' [] [NavigableString '' 12 High St ''],
              Tag ''address'' [] [NavigableString ''Pune'']]))) =
       Inr (map VStr [''12 High St'', ''Pune''])
   \<and> multilines_field
       (Node (Tag ''ledger'' []
          [Tag ''address.list'' []
             [Tag ''address'' [] [NavigableString '' 12 High St ''],
              Tag ''address'' [] [NavigableString ''Pune'']]]))
       (''address'', StrType markup, False) =
       Inr (VStr (''12 High St'' @ [CHR 0x0A] @ ''Pune''))"
  using multilines_zero_one_many
    [of "''address''" "''ledger''" "[]"
        "[Tag ''address.list'' []
           [Tag ''address'' [] [NavigableString '' 12 High St ''],
            Tag ''address'' [] [NavigableString ''Pune'']]]"
        "StrType markup" False
        "Tag ''address.list'' []
           [Tag ''address'' [] [NavigableString '' 12 High St ''],
            Tag ''address'' [] [NavigableString ''Pune'']]"
        "map VStr [''12 High St'', ''Pune'']" undefined "[''12 High St'', ''Pune'']"]
  by (simp add: StrType_def py_str_def strip_def is_space_def)

subsection \<open>C8: rules whose valueType is str\<close>

text \<open>
  Claim C8: an elements or descendantElements rule whose valueType is \<^verbatim>\<open>str\<close>
  gives the text of all matching candidates joined by a colon, for every number of
  candidates and both values of the required flag; with no candidate that is the empty
  string.
\<close>

theorem str_fields_join_all_candidates:
  "elements_field (Node (Tag nm ats cs)) ctx (src, StrType render, req) =
     Inr (VStr (join '':'' (map get_text (filter (is_tag_named src) cs))))
   \<and> descendent_elements_field (Node (Tag nm ats cs)) ctx (src, StrType render, req) =
     Inr (VStr (join '':'' (map get_text
            (filter (is_tag_named src) (descendants (Tag nm ats cs))))))
   \<and> (filter (is_tag_named src) cs = [] \<longrightarrow>
        elements_field (Node (Tag nm ats cs)) ctx (src, StrType render, req) = Inr (VStr []))
   \<and> (filter (is_tag_named src) (descendants (Tag nm ats cs)) = [] \<longrightarrow>
        descendent_elements_field (Node (Tag nm ats cs)) ctx (src, StrType render, req) = Inr (VStr []))"
  by (simp add: elements_field_def elements_try_def descendent_elements_field_def
      descendent_elements_try_def is_str_Str str_comprehension str_join_VStr_comp
      str_join_Nil del: descendants.simps)

text \<open>
  Claim C8, at a required rule without a candidate and at a rule with two candidates.
\<close>

theorem str_fields_join_all_candidates_witness:
  "filter (is_tag_named ''alias'') [Tag ''name'' [] [NavigableString ''kg'']] = []
   \<and> elements_field (Node (Tag ''unit'' [] [Tag ''name'' [] [NavigableString ''kg'']])) None
       (''alias'', StrType markup, True) = Inr (VStr [])
   \<and> elements_field
       (Node (Tag ''unit'' []
          [Tag ''name'' [] [NavigableString ''kg''], Tag ''size'' [] [],
           Tag ''name'' [] [NavigableString ''kilo'']])) None
       (''name'', StrType markup, False) = Inr (VStr ''kg:kilo'')"
  using str_fields_join_all_candidates
    [of "''unit''" "[]" "[Tag ''name'' [] [NavigableString ''kg'']]" None "''alias''" markup True]
    str_fields_join_all_candidates
    [of "''unit''" "[]" "[Tag ''name'' [] [NavigableString ''kg''], Tag ''size'' [] [],
           Tag ''name'' [] [NavigableString ''kilo'']]" None "''name''" markup False]
  by simp

subsection \<open>C9: a collection is built once\<close>

lemma getattr_stores:
  assumes "TallyReport_getattr rc r w item = (Inr obj, r', w')"
  shows "map_of (self_dict r') item = Some obj"
  using assms
  by (auto simp: TallyReport_getattr_def map_of_dict_setitem
      split: option.splits sum.splits prod.splits)

lemma first_access:
  "TallyReport_attribute units_report acme online ''units'' =
     (Inr 0,
      acme\<lparr>self_soup := Some envelope, self_dict := [(''units'', 0)]\<rparr>,
      online\<lparr>heap := [[(''kg'', ''kg'', kg_unit)]]\<rparr>)"
proof -
  have soup: "TallyReport_soup units_report acme online =
      (Inr (Some envelope), acme\<lparr>self_soup := Some envelope\<rparr>, online)"
    by (simp add: TallyReport_soup_def acquire_raw_response_def execute_def
        TallyReport_cachename_def units_report_def acme_def online_def)
  have found: "findAll (Some envelope) ''unit'' = Inr [kg_node]"
    by (simp add: findAll_def envelope_def kg_node_def)
  have lowered: "lower ''kg'' = ''kg''"
    by (simp add: lower_def)
  have named: "getattr_name kg_unit = Inr (VStr ''kg'')"
    by (simp add: kg_unit_def)
  have filled: "fill [kg_unit] [] = Inr [(''kg'', ''kg'', kg_unit)]"
    by (simp add: lowered named)
  have mapping: "build_mapping None (Some envelope) ''unit'' (TallyElement unit_class) 7 =
      Inr [(''kg'', ''kg'', kg_unit)]"
    by (simp add: build_mapping_def scoped_def found kg_unit_extracted lowered named)
  have cls: "map_of (cls_content units_report) ''units'' = Some (''unit'', TallyElement unit_class)"
    "cls_container units_report = None"
    by (simp_all add: units_report_def)
  have inst: "self_ref acme = 7" "self_dict acme = []" "heap online = []"
    by (simp_all add: acme_def online_def)
  show ?thesis
    by (simp add: TallyReport_attribute_def TallyReport_getattr_def soup cls inst mapping)
qed

text \<open>
  Claim C9: when reading a collection of a report has returned a mapping object, reading
  it again returns the same reference and changes neither the report nor the world,
  whatever the document has become in between (\<open>s\<close>) and whatever the world has become
  (\<open>w''\<close>).
\<close>

theorem collection_access_is_cached:
  assumes "TallyReport_attribute rc r w item = (Inr obj, r', w')"
  shows "TallyReport_attribute rc (r'\<lparr>self_soup := s\<rparr>) w'' item =
           (Inr obj, r'\<lparr>self_soup := s\<rparr>, w'')"
proof -
  have "map_of (self_dict r') item = Some obj"
  proof (cases "map_of (self_dict r) item")
    case None
    with assms have "TallyReport_getattr rc r w item = (Inr obj, r', w')"
      by (simp add: TallyReport_attribute_def)
    then show ?thesis
      by (rule getattr_stores)
  next
    case (Some obj0)
    with assms show ?thesis
      by (simp add: TallyReport_attribute_def)
  qed
  then show ?thesis
    by (simp add: TallyReport_attribute_def)
qed

text \<open>
  Claim C9, at the units of a report whose document is emptied after the first access.
\<close>

theorem collection_access_is_cached_witness:
  "TallyReport_attribute units_report acme online ''units'' =
     (Inr 0,
      acme\<lparr>self_soup := Some envelope, self_dict := [(''units'', 0)]\<rparr>,
      online\<lparr>heap := [[(''kg'', ''kg'', kg_unit)]]\<rparr>)
   \<and> TallyReport_attribute units_report
       (acme\<lparr>self_soup := Some envelope, self_dict := [(''units'', 0)]\<rparr>
          \<lparr>self_soup := Some (Tag ''envelope'' [] [])\<rparr>)
       (online\<lparr>heap := [[(''kg'', ''kg'', kg_unit)]]\<rparr>) ''units'' =
     (Inr 0,
      acme\<lparr>self_soup := Some envelope, self_dict := [(''units'', 0)]\<rparr>
          \<lparr>self_soup := Some (Tag ''envelope'' [] [])\<rparr>,
      online\<lparr>heap := [[(''kg'', ''kg'', kg_unit)]]\<rparr>)"
  using collection_access_is_cached [OF first_access] first_access
  by simp

subsection \<open>C10: the lists pass catches nothing\<close>

text \<open>
  Claim C10: a lists rule is a pair, without a required flag. When the construction of
  the item for some \<^verbatim>\<open><sourceName>.list\<close> node raises, the rule raises the
  exception of the first item that fails, the lists pass raises, and so does the
  constructor of the element: no value is assigned.
\<close>

theorem lists_failure_propagates:
  assumes "(k, src, ty) \<in> set (lists cls)"
    and "c \<in> set (filter (is_tag_named (src @ ''.list'')) (descendants (Tag nm ats cs)))"
    and "(if is_element_class ty then call2 ty (Node c) ctx else call1 ty (Node c)) = Inl e"
  shows "(\<exists>c' e'. c' \<in> set (filter (is_tag_named (src @ ''.list'')) (descendants (Tag nm ats cs)))
            \<and> (if is_element_class ty then call2 ty (Node c') ctx else call1 ty (Node c')) = Inl e'
            \<and> lists_field (Node (Tag nm ats cs)) ctx (src, ty) = Inl e')
       \<and> (\<exists>e'. process_lists (lists cls) (Node (Tag nm ats cs)) ctx d = Inl e')
       \<and> (\<exists>e'. TallyElement cls (Node (Tag nm ats cs)) ctx = Inl e')"
proof -
  let ?S = "Node (Tag nm ats cs)"
  let ?item = "\<lambda>c. if is_element_class ty then call2 ty (Node c) ctx else call1 ty (Node c)"
  let ?cands = "filter (is_tag_named (src @ ''.list'')) (descendants (Tag nm ats cs))"
  from comprehension_raises [where f = ?item and xs = ?cands and x = c and e = e] assms(2,3)
  obtain c' e' where c': "c' \<in> set ?cands" "?item c' = Inl e'"
    and raised: "comprehension ?item ?cands = Inl e'"
    by blast
  have field: "lists_field ?S ctx (src, ty) = Inl e'"
  proof (cases "is_element_class ty")
    case True
    with raised show ?thesis
      by (simp add: lists_field_def del: descendants.simps)
  next
    case False
    with raised show ?thesis
      by (simp add: lists_field_def del: descendants.simps)
  qed
  have pass: "\<exists>e'. process_lists (lists cls) ?S ctx d' = Inl e'" for d'
    unfolding process_lists_def
    using for_items_raises
      [where k = k and v = "(src, ty)" and table = "lists cls"
         and body = "lists_field ?S ctx" and e = e' and d = d'] assms(1) field
    by simp
  have init: "\<exists>e'. TallyElement cls ?S ctx = Inl e'"
  proof (cases "process_attrs (attrs cls) ?S []")
    case (Inl e1)
    then show ?thesis by (simp add: TallyElement_def populate_def)
  next
    case A: (Inr d1)
    show ?thesis
    proof (cases "process_elements (elements cls) ?S ctx d1")
      case (Inl e2)
      with A show ?thesis by (simp add: TallyElement_def populate_def)
    next
      case B: (Inr d2)
      from pass [of d2] obtain e3 where "process_lists (lists cls) ?S ctx d2 = Inl e3"
        by blast
      with A B show ?thesis by (simp add: TallyElement_def populate_def)
    qed
  qed
  from c' field pass [of d] init show ?thesis
    by blast
qed

text \<open>
  Claim C10, at a list of units whose one unit has a malformed number.
\<close>

theorem lists_failure_propagates_witness:
  "(''units'', ''unit'', ElementClass (TallyElement unit_class)) \<in> set (lists ledger_class)
   \<and> Tag ''unit.list'' [] [Tag ''name'' [] [NavigableString ''kg''],
                           Tag ''decimalplaces'' [] [NavigableString ''two'']]
       \<in> set (filter (is_tag_named (''unit'' @ ''.list''))
            (descendants (Tag ''ledger'' []
               [Tag ''unit.list'' [] [Tag ''name'' [] [NavigableString ''kg''],
                                      Tag ''decimalplaces'' [] [NavigableString ''two'']]])))
   \<and> TallyElement unit_class
        (Node (Tag ''unit.list'' [] [Tag ''name'' [] [NavigableString ''kg''],
                                     Tag ''decimalplaces'' [] [NavigableString ''two'']]))
        None = Inl ValueError
   \<and> (\<exists>e'. TallyElement ledger_class (Node ledger_node) None = Inl e')"
proof -
  have item: "TallyElement unit_class
        (Node (Tag ''unit.list'' [] [Tag ''name'' [] [NavigableString ''kg''],
                                     Tag ''decimalplaces'' [] [NavigableString ''two'']]))
        None = Inl ValueError"
    by (simp add: TallyElement_def populate_def unit_class_def
        process_attrs_def process_elements_def attrs_field_def attrs_try_def attrs_except_def
        elements_field_def elements_try_def elements_except_def StrType_def py_str_def
        IntType_def py_int_def strip_def is_space_def is_digit_def str_join_def)
  have rule: "(''units'', ''unit'', ElementClass (TallyElement unit_class)) \<in> set (lists ledger_class)"
    by (simp add: ledger_class_def)
  have cand: "Tag ''unit.list'' [] [Tag ''name'' [] [NavigableString ''kg''],
                           Tag ''decimalplaces'' [] [NavigableString ''two'']]
       \<in> set (filter (is_tag_named (''unit'' @ ''.list''))
            (descendants (Tag ''ledger'' []
               [Tag ''unit.list'' [] [Tag ''name'' [] [NavigableString ''kg''],
                                      Tag ''decimalplaces'' [] [NavigableString ''two'']]])))"
    by simp
  have raises: "(if is_element_class (ElementClass (TallyElement unit_class))
        then call2 (ElementClass (TallyElement unit_class))
          (Node (Tag ''unit.list'' [] [Tag ''name'' [] [NavigableString ''kg''],
                                       Tag ''decimalplaces'' [] [NavigableString ''two'']])) None
        else call1 (ElementClass (TallyElement unit_class))
          (Node (Tag ''unit.list'' [] [Tag ''name'' [] [NavigableString ''kg''],
                                       Tag ''decimalplaces'' [] [NavigableString ''two'']])))
      = Inl ValueError"
    using item by simp
  from lists_failure_propagates [OF rule cand raises] item rule cand show ?thesis
    by (simp only: ledger_node_def)
qed

end
